theory Spec2Isabelle
  imports Main
begin

text \<open>
  The tensor-parallel linear layers of \<open>colossalai/shardformer/layer/linear.py\<close>:
  \<open>Linear1D_Col\<close>, which shards the output dimension of the weight over the ranks of a
  process group, and \<open>Linear1D_Row\<close>, which shards its input dimension. A function of the
  source is a function here under its name; a call that raises returns the exception as
  \<open>Inl\<close>; a forward call or a construction returns, with its result, the communications and
  other effects of the calling rank in their order.
\<close>

section \<open>Tensors\<close>

text \<open>
  A tensor of one or more dimensions: its leading dimensions, the size of its last
  dimension, and its rows, the leading dimensions flattened into one index as \<open>F.linear\<close>
  treats them (a well-formed tensor has as many rows as the product of \<open>lead\<close>). A weight
  is two-dimensional: \<open>lead\<close> is its number of rows. A bias is one-dimensional, a plain list.
  Elements live in a semiring: sums are exact, the rounding of floating point is not part
  of the model.
\<close>

record 'a tensor =
  lead :: "nat list"
  ncols :: nat
  rows :: "'a list list"

definition shape :: "'a tensor \<Rightarrow> nat list" where
  "shape t = lead t @ [ncols t]"

definition wf_tensor :: "'a tensor \<Rightarrow> bool" where
  "wf_tensor t \<longleftrightarrow> list_all (\<lambda>r. length r = ncols t) (rows t)"

datatype error =
    ValueError string
  | AssertionError string
  | RuntimeError string
  | IndexError string
  | AttributeError string
  | ZeroDivisionError string
  | UnboundLocalError string
  | CollectiveHang

text \<open>
  \<open>CollectiveHang\<close> is not an exception: it stands for a collective that never returns
  because some rank of the group did not join it.
\<close>

datatype event =
    EvRandomizer
  | EvAlloc "int list"
  | EvShard
  | EvBroadcast nat
  | EvSplit
  | EvAllReduce
  | EvAllReduceAsync nat
  | EvWait nat
  | EvAllGather

fun is_collective :: "event \<Rightarrow> bool" where
  "is_collective (EvBroadcast src) = True"
| "is_collective EvAllReduce = True"
| "is_collective (EvAllReduceAsync i) = True"
| "is_collective (EvWait i) = True"
| "is_collective EvAllGather = True"
| "is_collective e = False"

subsection \<open>Printing numbers and shapes\<close>

fun str_nat :: "nat \<Rightarrow> string" where
  "str_nat n = (if n < 10 then [char_of (48 + n)]
                else str_nat (n div 10) @ [char_of (48 + n mod 10)])"

declare str_nat.simps [simp del]

definition str_int :: "int \<Rightarrow> string" where
  "str_int i = (if i < 0 then CHR ''-'' # str_nat (nat (- i)) else str_nat (nat i))"

fun join_comma :: "string list \<Rightarrow> string" where
  "join_comma [] = []"
| "join_comma [s] = s"
| "join_comma (s # ss) = s @ '', '' @ join_comma ss"

definition str_size :: "nat list \<Rightarrow> string" where
  "str_size ds = ''torch.Size(['' @ join_comma (map str_nat ds) @ ''])''"

subsection \<open>Local tensor operations\<close>

definition dot :: "'a::semiring_0 list \<Rightarrow> 'a list \<Rightarrow> 'a" where
  "dot x w = sum_list (map2 (*) x w)"

text \<open>
  \<open>F.linear(x, W)\<close> without bias: \<open>x \<cdot> W\<^sup>T\<close>. Every call in the layers comes after the
  assertion that the last dimensions of \<open>x\<close> and \<open>W\<close> agree.
\<close>

definition F_linear :: "'a::semiring_0 tensor \<Rightarrow> 'a tensor \<Rightarrow> 'a tensor" where
  "F_linear x W = \<lparr>lead = lead x, ncols = length (rows W),
                    rows = map (\<lambda>xr. map (dot xr) (rows W)) (rows x)\<rparr>"

definition tadd :: "'a::semiring_0 tensor \<Rightarrow> 'a tensor \<Rightarrow> 'a tensor" where
  "tadd a b = \<lparr>lead = lead a, ncols = ncols a, rows = map2 (map2 (+)) (rows a) (rows b)\<rparr>"

fun tensor_sum :: "'a::semiring_0 tensor list \<Rightarrow> 'a tensor" where
  "tensor_sum [] = \<lparr>lead = [0], ncols = 0, rows = []\<rparr>"
| "tensor_sum [t] = t"
| "tensor_sum (t # ts) = tadd t (tensor_sum ts)"

text \<open>\<open>output + bias\<close> with the broadcasting of a one-dimensional bias over the rows.\<close>

definition add_bias :: "'a::semiring_0 tensor \<Rightarrow> 'a list \<Rightarrow> error + 'a tensor" where
  "add_bias t b =
     (if length b = ncols t then Inr (t\<lparr>rows := map (\<lambda>r. map2 (+) r b) (rows t)\<rparr>)
      else if length b = 1 then Inr (t\<lparr>rows := map (map (\<lambda>v. v + hd b)) (rows t)\<rparr>)
      else if ncols t = 1 then
        Inr \<lparr>lead = lead t, ncols = length b, rows = map (\<lambda>r. map (\<lambda>v. hd r + v) b) (rows t)\<rparr>
      else Inl (RuntimeError ''The size of tensor a must match the size of tensor b''))"

text \<open>
  \<open>torch.chunk(W, n, dim=0)\<close> returns views of \<open>W\<close>: a view is the pair of its first row and
  its number of rows. The chunk size is \<open>\<lceil>d / n\<rceil>\<close>, so fewer than \<open>n\<close> chunks come back
  when \<open>d\<close> rows do not fill \<open>n\<close> chunks of that size; a tensor of no rows gives \<open>n\<close> empty
  chunks.
\<close>

definition torch_chunk :: "nat \<Rightarrow> nat \<Rightarrow> (nat \<times> nat) list" where
  "torch_chunk d n =
     (let s = (d + n - 1) div n in
      if d = 0 then replicate n (0, 0)
      else map (\<lambda>j. (j * s, min s (d - j * s))) [0..<(d + s - 1) div s])"

definition view :: "'a tensor \<Rightarrow> nat \<times> nat \<Rightarrow> 'a tensor" where
  "view W v = (let r = take (snd v) (drop (fst v) (rows W)) in W\<lparr>lead := [length r], rows := r\<rparr>)"

fun tcat :: "'a tensor list \<Rightarrow> 'a tensor" where
  "tcat [] = \<lparr>lead = [0], ncols = 0, rows = []\<rparr>"
| "tcat [t] = t"
| "tcat (t # ts) = \<lparr>lead = lead t, ncols = ncols t + ncols (tcat ts),
                     rows = map2 (@) (rows t) (rows (tcat ts))\<rparr>"

text \<open>\<open>torch.cat(ts, dim=-1)\<close>: an empty list of tensors is refused.\<close>

definition torch_cat :: "'a tensor list \<Rightarrow> error + 'a tensor" where
  "torch_cat ts = (if ts = [] then Inl (RuntimeError ''torch.cat(): expected a non-empty list of Tensors'')
                   else Inr (tcat ts))"

section \<open>Process groups and collectives\<close>

text \<open>
  The handle of a process group as this rank sees it: an identifier of the group, its
  size, the index of this rank in it, and the global rank of its member 0. \<open>pg_given\<close> is
  False when the caller passed \<open>None\<close>; the other fields are then those of the default
  group.
\<close>

record process_group =
  pg_given :: bool
  group_id :: nat
  world_size :: nat
  rank :: nat
  root_global_rank :: nat

definition in_rank_order :: "nat \<Rightarrow> 'b \<Rightarrow> 'b list \<Rightarrow> 'b list" where
  "in_rank_order r own others = take r others @ own # drop r others"

text \<open>
  Modelled from the spec: \<open>ReduceSum\<close> (\<open>reduce_forward\<close> of \<open>_operation.py\<close>, which is not
  among the sources, and \<open>dist.all_reduce\<close>) sums elementwise the partial tensor that every
  rank contributes; the result is the same on all ranks. The other ranks' contributions
  are given in rank order; a rank that does not join (\<open>None\<close>) blocks the others for ever.
\<close>

definition all_reduce :: "process_group \<Rightarrow> 'a::semiring_0 tensor \<Rightarrow> 'a tensor option list \<Rightarrow> error + 'a tensor" where
  "all_reduce g own others =
     (case those others of
        None \<Rightarrow> Inl CollectiveHang
      | Some ts \<Rightarrow> Inr (tensor_sum (in_rank_order (rank g) own ts)))"

text \<open>
  Modelled from the spec: \<open>AllGather\<close> (\<open>gather_forward_split_backward\<close> of
  \<open>_operation.py\<close>) concatenates the shards of all ranks in rank order along the last
  dimension.
\<close>

definition all_gather :: "process_group \<Rightarrow> 'a tensor \<Rightarrow> 'a tensor option list \<Rightarrow> error + 'a tensor" where
  "all_gather g own others =
     (case those others of
        None \<Rightarrow> Inl CollectiveHang
      | Some ts \<Rightarrow> Inr (tcat (in_rank_order (rank g) own ts)))"

text \<open>
  Modelled from the spec: \<open>Split\<close> (\<open>split_forward_gather_backward\<close> of \<open>_operation.py\<close>)
  slices a replicated tensor along its last dimension into \<open>world_size\<close> contiguous blocks
  and keeps the block of the calling rank; it is local.
\<close>

definition split_last :: "process_group \<Rightarrow> 'a tensor \<Rightarrow> 'a tensor" where
  "split_last g t =
     (let k = ncols t div world_size g in
      \<lparr>lead = lead t, ncols = k, rows = map (\<lambda>r. take k (drop (rank g * k) r)) (rows t)\<rparr>)"

text \<open>
  Modelled from the spec: \<open>divide\<close> (\<open>colossalai.nn.layer.utils\<close>) is not among the sources.
  The spec requires a feature count to be a multiple of the world size and has a failed
  divisibility validation raise an error naming the two sizes; \<open>divide\<close> is that validation
  followed by the quotient. It is \<open>divide_utils\<close> here, \<open>divide\<close> being the division of HOL.
\<close>

definition divide_utils :: "nat \<Rightarrow> nat \<Rightarrow> error + nat" where
  "divide_utils numerator denominator =
     (if denominator = 0 then Inl (AssertionError ''denominator can not be zero'')
      else if numerator mod denominator \<noteq> 0 then
        Inl (AssertionError (str_nat numerator @ '' is not divisible by '' @ str_nat denominator))
      else Inr (numerator div denominator))"

section \<open>The layers' state\<close>

record randomizer =
  rand_state :: nat

text \<open>The attributes that both layers keep (the class \<open>ParallelModule\<close> and its base).\<close>

record 'a parallel_module =
  in_features :: int
  out_features :: int
  skip_bias_add :: bool
  process_group :: process_group
  randomizer :: randomizer
  weight :: "'a tensor"
  bias :: "'a list option"
  training :: bool

record 'a col_layer = "'a parallel_module" +
  gather_output :: bool

text \<open>
  \<open>weight_list\<close> holds the views that \<open>chunk_weight\<close> took of \<open>weight\<close>; the attribute does not
  exist (\<open>None\<close>) on a layer built with \<open>stream_chunk_num \<le> 1\<close>.
\<close>

record 'a row_layer = "'a parallel_module" +
  stream_chunk_num :: int
  parallel_input :: bool
  num_partitions :: nat
  weight_list :: "(nat \<times> nat) list option"

datatype 'a fwd_out = Out "'a tensor" | OutBias "'a tensor" "'a list option"

section \<open>Row-parallel forward\<close>

definition invalid_shapes :: "string \<Rightarrow> nat list \<Rightarrow> nat list \<Rightarrow> nat \<Rightarrow> string" where
  "invalid_shapes cls inshape weight_shape expected =
     ''Invalid shapes in '' @ cls @ '' forward: input='' @ str_size inshape @
     '', weight='' @ str_size weight_shape @ ''. Expected last dim of input '' @
     str_nat expected @ ''.''"

text \<open>Lines 347 to 356: the shape assertion, then the local split of a replicated input.\<close>

definition row_check_input :: "'a row_layer \<Rightarrow> 'a tensor \<Rightarrow> (error + 'a tensor) \<times> event list" where
  "row_check_input self inp =
     (if parallel_input self then
        (if ncols inp = ncols (weight self) then (Inr inp, [])
         else (Inl (AssertionError (invalid_shapes ''Linear1D_Row'' (shape inp)
                      (shape (weight self)) (ncols (weight self)))), []))
      else
        (case divide_utils (ncols inp) (num_partitions self) of
           Inl e \<Rightarrow> (Inl e, [])
         | Inr q \<Rightarrow>
             if q = ncols (weight self) then (Inr (split_last (process_group self) inp), [EvSplit])
             else (Inl (AssertionError (invalid_shapes ''Linear1D_Row'' (shape inp)
                          (shape (weight self)) (ncols (weight self) * num_partitions self))), [])))"

text \<open>
  What another rank of the group contributes to the reductions of this call, from its own
  weight shard and input: it runs the same forward.
\<close>

definition row_local_input :: "'a row_layer \<Rightarrow> 'a tensor \<Rightarrow> 'a tensor" where
  "row_local_input l x = (if parallel_input l then x else split_last (process_group l) x)"

definition row_partial :: "'a::semiring_0 row_layer \<times> 'a tensor \<Rightarrow> 'a tensor option" where
  "row_partial p = Some (F_linear (row_local_input (fst p) (snd p)) (weight (fst p)))"

definition row_chunk_partial :: "nat \<Rightarrow> 'a::semiring_0 row_layer \<times> 'a tensor \<Rightarrow> 'a tensor option" where
  "row_chunk_partial i p =
     (case weight_list (fst p) of
        None \<Rightarrow> None
      | Some vs \<Rightarrow>
          if i < length vs
          then Some (F_linear (row_local_input (fst p) (snd p)) (view (weight (fst p)) (vs ! i)))
          else None)"

text \<open>\<open>self.weight_list[i]\<close>.\<close>

definition weight_list_item :: "'a row_layer \<Rightarrow> nat \<Rightarrow> error + 'a tensor" where
  "weight_list_item self i =
     (case weight_list self of
        None \<Rightarrow> Inl (AttributeError ''weight_list'')
      | Some vs \<Rightarrow>
          if i < length vs then Inr (view (weight self) (vs ! i))
          else Inl (IndexError ''tuple index out of range''))"

text \<open>
  Lines 364 to 369: the loop over the chunks. Each round computes the local partial product
  and issues its asynchronous reduction; the value a handle will hold after its wait is
  kept with it. A local exception ends the loop with the reductions issued so far.
\<close>

fun chunk_loop ::
  "'a::semiring_0 row_layer \<Rightarrow> 'a tensor \<Rightarrow> ('a row_layer \<times> 'a tensor) list \<Rightarrow> nat list
     \<Rightarrow> (error + (error + 'a tensor) list) \<times> event list" where
  "chunk_loop self x peers [] = (Inr [], [])"
| "chunk_loop self x peers (i # js) =
     (case weight_list_item self i of
        Inl e \<Rightarrow> (Inl e, [])
      | Inr w \<Rightarrow>
          (let handle = all_reduce (process_group self) (F_linear x w)
                          (map (row_chunk_partial i) peers)
           in case chunk_loop self x peers js of
                (Inl e, ev) \<Rightarrow> (Inl e, EvAllReduceAsync i # ev)
              | (Inr handles, ev) \<Rightarrow> (Inr (handle # handles), EvAllReduceAsync i # ev)))"

text \<open>Lines 371 and 372: the waits, in the order of issue.\<close>

fun wait_all :: "nat \<Rightarrow> (error + 'a tensor) list \<Rightarrow> (error + 'a tensor list) \<times> event list" where
  "wait_all i [] = (Inr [], [])"
| "wait_all i (Inl e # hs) = (Inl e, [EvWait i])"
| "wait_all i (Inr t # hs) =
     (case wait_all (Suc i) hs of
        (Inl e, ev) \<Rightarrow> (Inl e, EvWait i # ev)
      | (Inr ts, ev) \<Rightarrow> (Inr (t # ts), EvWait i # ev))"

definition row_chunked :: "'a::semiring_0 row_layer \<Rightarrow> 'a tensor \<Rightarrow> ('a row_layer \<times> 'a tensor) list
     \<Rightarrow> (error + 'a tensor) \<times> event list" where
  "row_chunked self x peers =
     (case chunk_loop self x peers [0..<nat (stream_chunk_num self)] of
        (Inl e, ev) \<Rightarrow> (Inl e, ev)
      | (Inr handles, ev) \<Rightarrow>
          (case wait_all 0 handles of
             (Inl e, ev') \<Rightarrow> (Inl e, ev @ ev')
           | (Inr outs, ev') \<Rightarrow> (torch_cat outs, ev @ ev')))"

definition row_standard :: "'a::semiring_0 row_layer \<Rightarrow> 'a tensor \<Rightarrow> ('a row_layer \<times> 'a tensor) list
     \<Rightarrow> (error + 'a tensor) \<times> event list" where
  "row_standard self x peers =
     (all_reduce (process_group self) (F_linear x (weight self)) (map row_partial peers),
      [EvAllReduce])"

text \<open>Lines 378 to 383.\<close>

definition row_finish :: "'a::semiring_0 row_layer \<Rightarrow> 'a tensor \<Rightarrow> error + 'a fwd_out" where
  "row_finish self output =
     (if \<not> skip_bias_add self then
        (case bias self of
           Some b \<Rightarrow> (case add_bias output b of Inl e \<Rightarrow> Inl e | Inr t \<Rightarrow> Inr (Out t))
         | None \<Rightarrow> Inr (Out output))
      else Inr (OutBias output (bias self)))"

text \<open>
  \<open>Linear1D_Row.forward\<close> on one rank. \<open>peers\<close> are the layers and inputs of the other ranks
  of the group, in rank order. The result comes with the events of this rank, in order.
\<close>

definition Linear1D_Row_forward ::
  "'a::semiring_0 row_layer \<Rightarrow> 'a tensor \<Rightarrow> ('a row_layer \<times> 'a tensor) list
     \<Rightarrow> (error + 'a fwd_out) \<times> event list" where
  "Linear1D_Row_forward self inp peers =
     (case row_check_input self inp of
        (Inl e, ev) \<Rightarrow> (Inl e, ev)
      | (Inr x, ev) \<Rightarrow>
          (case (if stream_chunk_num self > 1 then
                   (if training self then
                      (Inl (RuntimeError ''use stream_chunk_num=1 in Linear1D_Row for training!''), [])
                    else row_chunked self x peers)
                 else row_standard self x peers) of
             (Inl e, ev') \<Rightarrow> (Inl e, ev @ ev')
           | (Inr output, ev') \<Rightarrow> (row_finish self output, ev @ ev')))"

section \<open>Column-parallel forward\<close>

text \<open>
  Modelled from the spec: the forward pass of \<open>linear_with_async_comm\<close> (\<open>_operation.py\<close>)
  is the local product \<open>input \<cdot> weightShard\<^sup>T\<close>, plus the bias when one is passed; its
  communication belongs to the backward pass.
\<close>

definition linear_with_async_comm :: "'a::semiring_0 tensor \<Rightarrow> 'a tensor \<Rightarrow> 'a list option \<Rightarrow> error + 'a tensor" where
  "linear_with_async_comm x W b =
     (case b of None \<Rightarrow> Inr (F_linear x W) | Some bv \<Rightarrow> add_bias (F_linear x W) bv)"

text \<open>The local output of a rank of the group, or nothing when its product raises.\<close>

definition col_partial :: "'a::semiring_0 col_layer \<times> 'a tensor \<Rightarrow> 'a tensor option" where
  "col_partial p =
     (case linear_with_async_comm (snd p) (weight (fst p))
             (if \<not> skip_bias_add (fst p) then bias (fst p) else None) of
        Inl e \<Rightarrow> None
      | Inr t \<Rightarrow> Some t)"

definition Linear1D_Col_forward ::
  "'a::semiring_0 col_layer \<Rightarrow> 'a tensor \<Rightarrow> ('a col_layer \<times> 'a tensor) list
     \<Rightarrow> (error + 'a fwd_out) \<times> event list" where
  "Linear1D_Col_forward self inp peers =
     (if ncols inp \<noteq> ncols (weight self) then
        (Inl (AssertionError (invalid_shapes ''Linear1D_Col'' (shape inp)
                (shape (weight self)) (ncols (weight self)))), [])
      else
        (let b = (if \<not> skip_bias_add self then bias self else None) in
         case linear_with_async_comm inp (weight self) b of
           Inl e \<Rightarrow> (Inl e, [])
         | Inr output_parallel \<Rightarrow>
             (case (if gather_output self then
                      (all_gather (process_group self) output_parallel (map col_partial peers),
                       [EvAllGather])
                    else (Inr output_parallel, [])) of
                (Inl e, ev) \<Rightarrow> (Inl e, ev)
              | (Inr output, ev) \<Rightarrow>
                  (if skip_bias_add self then (Inr (OutBias output (bias self)), ev)
                   else (Inr (Out output), ev)))))"

section \<open>Construction\<close>

text \<open>
  What construction and initialisation act on outside the layer: the state of the ambient
  random generator, the seed it was started from, and the record of the allocations,
  shardings and communications made so far.
\<close>

record world =
  ambient_rng :: nat
  initial_seed :: nat
  events :: "event list"

definition log :: "event \<Rightarrow> world \<Rightarrow> world" where
  "log e w = w\<lparr>events := events w @ [e]\<rparr>"

text \<open>A \<open>Parameter\<close> handed to a constructor: its data and whether it is already sharded.\<close>

record 'b param =
  data :: 'b
  is_distributed_tensor :: bool

text \<open>
  An initializer fills a tensor in place from the ambient generator: it maps the tensor,
  the fan sizes and the generator state to the new contents, or to an exception, and the
  generator state it leaves.
\<close>

type_synonym 'a weight_init = "'a tensor \<Rightarrow> int \<Rightarrow> int \<Rightarrow> nat \<Rightarrow> (error + 'a tensor) \<times> nat"
type_synonym 'a bias_init = "'a list \<Rightarrow> int \<Rightarrow> nat \<Rightarrow> (error + 'a list) \<times> nat"

text \<open>
  The arguments of the constructors. A keyword argument with a default is \<open>None\<close> when the
  caller leaves it out. The initializers are always given: the defaults of the source are
  random initializers.
\<close>

record 'a layer_args =
  arg_in_features :: int
  arg_out_features :: int
  arg_bias :: "bool option"
  arg_process_group :: process_group
  arg_skip_bias_add :: "bool option"
  arg_weight :: "'a tensor param option"
  arg_bias_param :: "'a list param option"
  arg_weight_initializer :: "'a weight_init"
  arg_bias_initializer :: "'a bias_init"

record 'a col_args = "'a layer_args" +
  arg_gather_output :: "bool option"

record 'a row_args = "'a layer_args" +
  arg_parallel_input :: "bool option"
  arg_stream_chunk_num :: "int option"

definition dflt :: "'b \<Rightarrow> 'b option \<Rightarrow> 'b" where
  "dflt d v = (case v of None \<Rightarrow> d | Some x \<Rightarrow> x)"

text \<open>
  \<open>torch.empty\<close>: the contents are unspecified (zero here); \<open>reset_parameters\<close> overwrites
  them before the constructor returns.
\<close>

definition torch_empty :: "int \<Rightarrow> int \<Rightarrow> error + 'a::zero tensor" where
  "torch_empty m n =
     (if m < 0 \<or> n < 0 then Inl (RuntimeError ''Trying to create tensor with negative dimension'')
      else Inr \<lparr>lead = [nat m], ncols = nat n, rows = replicate (nat m) (replicate (nat n) 0)\<rparr>)"

definition torch_empty1 :: "int \<Rightarrow> error + 'a::zero list" where
  "torch_empty1 m =
     (if m < 0 then Inl (RuntimeError ''Trying to create tensor with negative dimension'')
      else Inr (replicate (nat m) 0))"

text \<open>
  Modelled from the spec: \<open>ShardRowwise\<close> splits along dimension 0 into \<open>world_size\<close>
  contiguous blocks of length \<open>dim0 / world_size\<close> and rank \<open>r\<close> keeps block \<open>r\<close>;
  \<open>ShardColwise\<close> does the same along dimension 1, or along the only dimension of a bias
  (\<open>shard_rowwise\<close>, \<open>shard_colwise\<close> of \<open>colossalai.tensor.d_tensor.api\<close>).
\<close>

definition shard_rowwise :: "process_group \<Rightarrow> 'a tensor \<Rightarrow> 'a tensor" where
  "shard_rowwise g t =
     (let k = length (rows t) div world_size g;
          r = take k (drop (rank g * k) (rows t))
      in t\<lparr>lead := [length r], rows := r\<rparr>)"

definition shard_colwise :: "process_group \<Rightarrow> 'a tensor \<Rightarrow> 'a tensor" where
  "shard_colwise g t =
     (let k = ncols t div world_size g in
      \<lparr>lead = lead t, ncols = k, rows = map (\<lambda>r. take k (drop (rank g * k) r)) (rows t)\<rparr>)"

definition shard_colwise1 :: "process_group \<Rightarrow> 'a list \<Rightarrow> 'a list" where
  "shard_colwise1 g b = (let k = length b div world_size g in take k (drop (rank g * k) b))"

text \<open>
  Modelled from the spec: \<open>create_randomizer_with_offset\<close> (\<open>utils.py\<close> of the layer package)
  derives the generator of a layer from a base seed plus an identifier of the process group
  and the calling rank.
\<close>

definition create_randomizer_with_offset :: "nat \<Rightarrow> process_group \<Rightarrow> randomizer" where
  "create_randomizer_with_offset seed g = \<lparr>rand_state = seed + group_id g + rank g\<rparr>"

text \<open>
  Modelled from the spec: \<open>fork_rng\<close> of the randomizer is a scoped context that saves the
  state of the ambient generator on entry, lets the body draw from the layer's own
  generator, and restores the saved state on every exit, normal or exceptional; the layer's
  generator keeps the state the body left.
\<close>

definition fork_rng ::
  "randomizer \<Rightarrow> (world \<Rightarrow> (error + 'b) \<times> world) \<Rightarrow> world \<Rightarrow> ((error + 'b) \<times> randomizer) \<times> world" where
  "fork_rng rnd body w =
     (let saved = ambient_rng w;
          r = body (w\<lparr>ambient_rng := rand_state rnd\<rparr>)
      in ((fst r, rnd\<lparr>rand_state := ambient_rng (snd r)\<rparr>), (snd r)\<lparr>ambient_rng := saved\<rparr>))"

text \<open>
  Lines 101 to 109 and 257 to 266: the weight is allocated or taken from the caller, and
  sharded unless it is sharded already.
\<close>

definition make_weight ::
  "(process_group \<Rightarrow> 'a::zero tensor \<Rightarrow> 'a tensor) \<Rightarrow> ('a, 'z) layer_args_scheme \<Rightarrow> world
     \<Rightarrow> (error + 'a tensor) \<times> world" where
  "make_weight shard args w =
     (case (case arg_weight args of
              None \<Rightarrow>
                (case torch_empty (arg_out_features args) (arg_in_features args) of
                   Inl e \<Rightarrow> (Inl e, w)
                 | Inr t \<Rightarrow>
                     (Inr \<lparr>data = t, is_distributed_tensor = False\<rparr>,
                      log (EvAlloc [arg_out_features args, arg_in_features args]) w))
            | Some p \<Rightarrow> (Inr p, w)) of
        (Inl e, w') \<Rightarrow> (Inl e, w')
      | (Inr p, w') \<Rightarrow>
          if \<not> is_distributed_tensor p
          then (Inr (shard (arg_process_group args) (data p)), log EvShard w')
          else (Inr (data p), w'))"

text \<open>
  Lines 111 to 121 and 272 to 279: the bias. \<open>factory_kwargs\<close> is bound only on the path
  that allocated the weight. The column layer shards its bias, the row layer keeps the
  whole of it.
\<close>

definition make_bias ::
  "bool \<Rightarrow> ('a::zero, 'z) layer_args_scheme \<Rightarrow> world \<Rightarrow> (error + 'a list option) \<times> world" where
  "make_bias sharded args w =
     (if dflt True (arg_bias args) then
        (case (case arg_bias_param args of
                 None \<Rightarrow>
                   (if arg_weight args = None then
                      (case torch_empty1 (arg_out_features args) of
                         Inl e \<Rightarrow> (Inl e, w)
                       | Inr b \<Rightarrow>
                           (Inr \<lparr>data = b, is_distributed_tensor = False\<rparr>,
                            log (EvAlloc [arg_out_features args]) w))
                    else (Inl (UnboundLocalError ''factory_kwargs''), w))
               | Some p \<Rightarrow> (Inr p, w)) of
           (Inl e, w') \<Rightarrow> (Inl e, w')
         | (Inr p, w') \<Rightarrow>
             if sharded \<and> \<not> is_distributed_tensor p
             then (Inr (Some (shard_colwise1 (arg_process_group args) (data p))), log EvShard w')
             else (Inr (Some (data p)), w'))
      else (Inr None, w))"

text \<open>Lines 94 to 98 and 250 to 254: the two assertions on \<open>weight\<close> and \<open>bias_\<close>.\<close>

definition sanity_check :: "('a, 'z) layer_args_scheme \<Rightarrow> error option" where
  "sanity_check args =
     (if arg_weight args \<noteq> None then
        (if \<not> dflt True (arg_bias args) \<or> arg_bias_param args \<noteq> None then None
         else Some (AssertionError ''bias_ must be provided if bias is True when weight is not None''))
      else
        (if arg_bias_param args = None then None
         else Some (AssertionError ''bias_ must be None if weight is None'')))"

subsection \<open>Column-parallel layer\<close>

text \<open>The body of the \<open>with\<close> block of \<open>Linear1D_Col.reset_parameters\<close>.\<close>

definition col_reset_body ::
  "'a weight_init \<Rightarrow> 'a bias_init \<Rightarrow> 'a col_layer \<Rightarrow> world \<Rightarrow> (error + 'a col_layer) \<times> world" where
  "col_reset_body weight_initializer bias_initializer self w =
     (case weight_initializer (weight self) (in_features self) (out_features self) (ambient_rng w) of
        (Inl e, g) \<Rightarrow> (Inl e, w\<lparr>ambient_rng := g\<rparr>)
      | (Inr wt, g) \<Rightarrow>
          (case bias self of
             None \<Rightarrow> (Inr (self\<lparr>weight := wt\<rparr>), w\<lparr>ambient_rng := g\<rparr>)
           | Some b \<Rightarrow>
               (case bias_initializer b (in_features self) g of
                  (Inl e, g') \<Rightarrow> (Inl e, w\<lparr>ambient_rng := g'\<rparr>)
                | (Inr b', g') \<Rightarrow>
                    (Inr (self\<lparr>weight := wt, bias := Some b'\<rparr>), w\<lparr>ambient_rng := g'\<rparr>))))"

definition Linear1D_Col_reset_parameters ::
  "'a weight_init \<Rightarrow> 'a bias_init \<Rightarrow> 'a col_layer \<Rightarrow> world \<Rightarrow> (error + 'a col_layer) \<times> world" where
  "Linear1D_Col_reset_parameters weight_initializer bias_initializer self w =
     (case fork_rng (randomizer self) (col_reset_body weight_initializer bias_initializer self) w of
        ((Inl e, rnd), w') \<Rightarrow> (Inl e, w')
      | ((Inr self', rnd), w') \<Rightarrow> (Inr (self'\<lparr>randomizer := rnd\<rparr>), w'))"

definition Linear1D_Col_init :: "'a::zero col_args \<Rightarrow> world \<Rightarrow> (error + 'a col_layer) \<times> world" where
  "Linear1D_Col_init args w =
     (if dflt False (arg_skip_bias_add args) \<and> \<not> dflt True (arg_bias args) then
        (Inl (ValueError ''cannot skip bias addition if bias is None''), w)
      else
        (let rnd = create_randomizer_with_offset (initial_seed w) (arg_process_group args);
             w1 = log EvRandomizer w
         in case sanity_check args of
              Some e \<Rightarrow> (Inl e, w1)
            | None \<Rightarrow>
                (case make_weight shard_rowwise args w1 of
                   (Inl e, w2) \<Rightarrow> (Inl e, w2)
                 | (Inr wt, w2) \<Rightarrow>
                     (case make_bias True args w2 of
                        (Inl e, w3) \<Rightarrow> (Inl e, w3)
                      | (Inr b, w3) \<Rightarrow>
                          (let self = \<lparr>in_features = arg_in_features args,
                                       out_features = arg_out_features args,
                                       skip_bias_add = dflt False (arg_skip_bias_add args),
                                       process_group = arg_process_group args,
                                       randomizer = rnd,
                                       weight = wt,
                                       bias = b,
                                       training = True,
                                       gather_output = dflt False (arg_gather_output args)\<rparr>
                           in if arg_weight args = None
                              then Linear1D_Col_reset_parameters (arg_weight_initializer args)
                                     (arg_bias_initializer args) self w3
                              else (Inr self, w3))))))"

subsection \<open>Row-parallel layer\<close>

text \<open>
  \<open>dist.broadcast\<close> from the member 0 of the group, as this rank sees it: member 0 keeps its
  tensor, the others receive \<open>from_root\<close>, the tensor member 0 sends, and wait for ever if it
  sends none.
\<close>

definition broadcast :: "process_group \<Rightarrow> 'b \<Rightarrow> 'b option \<Rightarrow> error + 'b" where
  "broadcast g own from_root =
     (if rank g = 0 then Inr own
      else case from_root of None \<Rightarrow> Inl CollectiveHang | Some t \<Rightarrow> Inr t)"

text \<open>\<open>Linear1D_Row.reset_parameters\<close>, lines 327 to 343: no scope of its own.\<close>

definition Linear1D_Row_reset_parameters ::
  "'a list option \<Rightarrow> 'a weight_init \<Rightarrow> 'a bias_init \<Rightarrow> 'a row_layer \<Rightarrow> world
     \<Rightarrow> (error + 'a row_layer) \<times> world" where
  "Linear1D_Row_reset_parameters from_root weight_initializer bias_initializer self w =
     (case weight_initializer (weight self) (in_features self) (out_features self) (ambient_rng w) of
        (Inl e, g) \<Rightarrow> (Inl e, w\<lparr>ambient_rng := g\<rparr>)
      | (Inr wt, g) \<Rightarrow>
          (case bias self of
             None \<Rightarrow> (Inr (self\<lparr>weight := wt\<rparr>), w\<lparr>ambient_rng := g\<rparr>)
           | Some b \<Rightarrow>
               (case bias_initializer b (in_features self) g of
                  (Inl e, g') \<Rightarrow> (Inl e, w\<lparr>ambient_rng := g'\<rparr>)
                | (Inr b', g') \<Rightarrow>
                    (let src_rank = (if \<not> pg_given (process_group self) then 0
                                     else root_global_rank (process_group self));
                         w' = log (EvBroadcast src_rank) (w\<lparr>ambient_rng := g'\<rparr>)
                     in case broadcast (process_group self) b' from_root of
                          Inl e \<Rightarrow> (Inl e, w')
                        | Inr b'' \<Rightarrow> (Inr (self\<lparr>weight := wt, bias := Some b''\<rparr>), w')))))"

text \<open>\<open>chunk_weight\<close>, lines 324 and 325.\<close>

definition chunk_weight :: "'a row_layer \<Rightarrow> 'a row_layer" where
  "chunk_weight self =
     self\<lparr>weight_list := Some (torch_chunk (length (rows (weight self))) (nat (stream_chunk_num self)))\<rparr>"

text \<open>
  Lines 282 and 283: the constructor calls \<open>reset_parameters\<close> inside the scope of the
  layer's randomizer.
\<close>

definition row_scoped_reset ::
  "'a list option \<Rightarrow> 'a weight_init \<Rightarrow> 'a bias_init \<Rightarrow> 'a row_layer \<Rightarrow> world
     \<Rightarrow> (error + 'a row_layer) \<times> world" where
  "row_scoped_reset from_root weight_initializer bias_initializer self w =
     (case fork_rng (randomizer self)
             (Linear1D_Row_reset_parameters from_root weight_initializer bias_initializer self) w of
        ((Inl e, rnd), w') \<Rightarrow> (Inl e, w')
      | ((Inr self', rnd), w') \<Rightarrow> (Inr (self'\<lparr>randomizer := rnd\<rparr>), w'))"

definition Linear1D_Row_init ::
  "'a list option \<Rightarrow> 'a::zero row_args \<Rightarrow> world \<Rightarrow> (error + 'a row_layer) \<times> world" where
  "Linear1D_Row_init from_root args w =
     (if dflt False (arg_skip_bias_add args) \<and> \<not> dflt True (arg_bias args) then
        (Inl (ValueError ''cannot skip bias addition if bias is None''), w)
      else
        (let rnd = create_randomizer_with_offset (initial_seed w) (arg_process_group args);
             w1 = log EvRandomizer w
         in case sanity_check args of
              Some e \<Rightarrow> (Inl e, w1)
            | None \<Rightarrow>
                (case make_weight shard_colwise args w1 of
                   (Inl e, w2) \<Rightarrow> (Inl e, w2)
                 | (Inr wt, w2) \<Rightarrow>
                     (let self0 = \<lparr>in_features = arg_in_features args,
                                   out_features = arg_out_features args,
                                   skip_bias_add = dflt False (arg_skip_bias_add args),
                                   process_group = arg_process_group args,
                                   randomizer = rnd,
                                   weight = wt,
                                   bias = None,
                                   training = True,
                                   stream_chunk_num = dflt 1 (arg_stream_chunk_num args),
                                   parallel_input = dflt True (arg_parallel_input args),
                                   num_partitions = world_size (arg_process_group args),
                                   weight_list = None\<rparr>;
                          self1 = (if stream_chunk_num self0 > 1 then chunk_weight self0 else self0)
                      in case make_bias False args w2 of
                           (Inl e, w3) \<Rightarrow> (Inl e, w3)
                         | (Inr b, w3) \<Rightarrow>
                             (let self = self1\<lparr>bias := b\<rparr>
                              in if arg_weight args = None
                                 then row_scoped_reset from_root (arg_weight_initializer args)
                                        (arg_bias_initializer args) self w3
                                 else (Inr self, w3))))))"

section \<open>Conversion of a dense layer\<close>

record 'a linear_module =
  lin_in_features :: int
  lin_out_features :: int
  lin_weight :: "'a tensor param"
  lin_bias :: "'a list param option"

datatype pg_arg = Group process_group | Groups "process_group list"

datatype ('m, 'l) converted = Native 'm | Parallel 'l

text \<open>
  Lazy materialisation is outside these files; a module whose tensors exist is left as it
  is.
\<close>

definition materialize :: "'a linear_module \<Rightarrow> 'a linear_module" where
  "materialize module = module"

text \<open>Lines 141 to 144 and 299 to 302.\<close>

definition one_process_group :: "pg_arg \<Rightarrow> error + process_group" where
  "one_process_group a =
     (case a of
        Group g \<Rightarrow> Inr g
      | Groups gs \<Rightarrow>
          if length gs = 1 then Inr (hd gs)
          else Inl (AssertionError (''Expected only one process group, got '' @ str_nat (length gs) @ ''.'')))"

definition not_multiple :: "string \<Rightarrow> int \<Rightarrow> int \<Rightarrow> string" where
  "not_multiple name n tp_size =
     ''The size of '' @ name @ '':'' @ str_int n @
     '' is not integer multiples of tensor parallel size: '' @ str_int tp_size @ ''!''"

text \<open>
  The keyword arguments passed on to the constructor come as an argument record, of which
  the fields that \<open>from_native_module\<close> sets itself are not read.
\<close>

definition Linear1D_Col_from_native_module ::
  "'a::zero linear_module \<Rightarrow> pg_arg \<Rightarrow> 'a col_args \<Rightarrow> world
     \<Rightarrow> (error + ('a linear_module, 'a col_layer) converted) \<times> world" where
  "Linear1D_Col_from_native_module module0 pga kwargs w =
     (let module = materialize module0 in
      case one_process_group pga of
        Inl e \<Rightarrow> (Inl e, w)
      | Inr g \<Rightarrow>
          (let tp_size = int (world_size g) in
           if lin_out_features module < tp_size then (Inr (Native module), w)
           else if tp_size = 0 then
             (Inl (ZeroDivisionError ''integer division or modulo by zero''), w)
           else if lin_out_features module mod tp_size \<noteq> 0 then
             (Inl (ValueError (not_multiple ''out_features'' (lin_out_features module) tp_size)), w)
           else
             (case Linear1D_Col_init
                     (kwargs\<lparr>arg_in_features := lin_in_features module,
                             arg_out_features := lin_out_features module,
                             arg_bias := Some (lin_bias module \<noteq> None),
                             arg_process_group := g,
                             arg_weight := Some (lin_weight module),
                             arg_bias_param := lin_bias module\<rparr>) w of
                (Inl e, w') \<Rightarrow> (Inl e, w')
              | (Inr l, w') \<Rightarrow> (Inr (Parallel l), w'))))"

definition Linear1D_Row_from_native_module ::
  "'a list option \<Rightarrow> 'a::zero linear_module \<Rightarrow> pg_arg \<Rightarrow> 'a row_args \<Rightarrow> world
     \<Rightarrow> (error + ('a linear_module, 'a row_layer) converted) \<times> world" where
  "Linear1D_Row_from_native_module from_root module0 pga kwargs w =
     (let module = materialize module0 in
      case one_process_group pga of
        Inl e \<Rightarrow> (Inl e, w)
      | Inr g \<Rightarrow>
          (let tp_size = int (world_size g) in
           if lin_in_features module < tp_size then (Inr (Native module), w)
           else if tp_size = 0 then
             (Inl (ZeroDivisionError ''integer division or modulo by zero''), w)
           else if lin_in_features module mod tp_size \<noteq> 0 then
             (Inl (ValueError (not_multiple ''in_features'' (lin_in_features module) tp_size)), w)
           else
             (case Linear1D_Row_init from_root
                     (kwargs\<lparr>arg_in_features := lin_in_features module,
                             arg_out_features := lin_out_features module,
                             arg_bias := Some (lin_bias module \<noteq> None),
                             arg_process_group := g,
                             arg_weight := Some (lin_weight module),
                             arg_bias_param := lin_bias module\<rparr>) w of
                (Inl e, w') \<Rightarrow> (Inl e, w')
              | (Inr l, w') \<Rightarrow> (Inr (Parallel l), w'))))"

section \<open>Reference semantics and well-formed groups\<close>



text \<open>The columns of a tensor that a view of the weight's rows produces.\<close>

definition cslice :: "nat \<times> nat \<Rightarrow> 'a tensor \<Rightarrow> 'a tensor" where
  "cslice v T = \<lparr>lead = lead T, ncols = min (snd v) (ncols T - fst v),
                 rows = map (\<lambda>r. take (snd v) (drop (fst v) r)) (rows T)\<rparr>"



section \<open>Example data\<close>

definition ex_pg :: "nat \<Rightarrow> nat \<Rightarrow> process_group" where
  "ex_pg p r = \<lparr>pg_given = True, group_id = 0, world_size = p, rank = r, root_global_rank = 0\<rparr>"

definition ex_world :: world where
  "ex_world = \<lparr>ambient_rng = 7, initial_seed = 1234, events = []\<rparr>"

definition ex_weight_init :: "int weight_init" where
  "ex_weight_init t fan_in fan_out g = (Inr (t\<lparr>rows := map (map (\<lambda>v. int g)) (rows t)\<rparr>), g + 1)"

definition ex_bias_init :: "int bias_init" where
  "ex_bias_init b fan_in g = (Inr (map (\<lambda>v. int g) b), g + 1)"

definition ex_col_args :: "int col_args" where
  "ex_col_args = \<lparr>arg_in_features = 4, arg_out_features = 2, arg_bias = Some False,
     arg_process_group = ex_pg 2 0, arg_skip_bias_add = Some True, arg_weight = None,
     arg_bias_param = None, arg_weight_initializer = ex_weight_init,
     arg_bias_initializer = ex_bias_init, arg_gather_output = None\<rparr>"

definition ex_row_args :: "int row_args" where
  "ex_row_args = \<lparr>arg_in_features = 4, arg_out_features = 2, arg_bias = Some False,
     arg_process_group = ex_pg 2 0, arg_skip_bias_add = Some True, arg_weight = None,
     arg_bias_param = None, arg_weight_initializer = ex_weight_init,
     arg_bias_initializer = ex_bias_init, arg_parallel_input = None,
     arg_stream_chunk_num = None\<rparr>"

definition ex_dense :: "int linear_module" where
  "ex_dense = \<lparr>lin_in_features = 10, lin_out_features = 10,
     lin_weight = \<lparr>data = \<lparr>lead = [10], ncols = 10, rows = replicate 10 (replicate 10 1)\<rparr>, is_distributed_tensor = False\<rparr>,
     lin_bias = None\<rparr>"

definition ex_W :: "int tensor" where
  "ex_W = \<lparr>lead = [2], ncols = 4, rows = [[1, 2, 3, 4], [5, 6, 7, 8]]\<rparr>"


definition ex_row :: "nat \<Rightarrow> int row_layer" where
  "ex_row r = \<lparr>in_features = 4, out_features = 2, skip_bias_add = False,
     process_group = ex_pg 2 r, randomizer = \<lparr>rand_state = 1234 + r\<rparr>,
     weight = shard_colwise (ex_pg 2 r) ex_W, bias = Some [10, 20], training = False,
     stream_chunk_num = 1, parallel_input = True, num_partitions = 2, weight_list = None\<rparr>"

definition ex_row_train :: "int row_layer" where
  "ex_row_train = (ex_row 0)\<lparr>training := True, stream_chunk_num := 2, weight_list := Some (torch_chunk 2 2)\<rparr>"

definition ex_col :: "nat \<Rightarrow> int col_layer" where
  "ex_col r = \<lparr>in_features = 4, out_features = 2, skip_bias_add = False,
     process_group = ex_pg 2 r, randomizer = \<lparr>rand_state = 1234 + r\<rparr>,
     weight = shard_rowwise (ex_pg 2 r) ex_W, bias = Some (shard_colwise1 (ex_pg 2 r) [10, 20]),
     training = False, gather_output = True\<rparr>"

definition ex_failing_init :: "int weight_init" where
  "ex_failing_init t fan_in fan_out g = (Inl (RuntimeError ''initializer failed''), g + 1)"

definition ex_row_fresh :: "int row_args" where
  "ex_row_fresh = \<lparr>arg_in_features = 4, arg_out_features = 2, arg_bias = None,
     arg_process_group = ex_pg 2 0, arg_skip_bias_add = None, arg_weight = None,
     arg_bias_param = None, arg_weight_initializer = ex_weight_init,
     arg_bias_initializer = ex_bias_init, arg_parallel_input = None,
     arg_stream_chunk_num = None\<rparr>"



definition ex_W4 :: "int tensor" where
  "ex_W4 = \<lparr>lead = [4], ncols = 2, rows = [[1, 2], [3, 4], [5, 6], [7, 8]]\<rparr>"

definition ex_chunk_args :: "int row_args" where
  "ex_chunk_args = \<lparr>arg_in_features = 2, arg_out_features = 4, arg_bias = Some False,
     arg_process_group = ex_pg 1 0, arg_skip_bias_add = None,
     arg_weight = Some \<lparr>data = ex_W4, is_distributed_tensor = False\<rparr>,
     arg_bias_param = None, arg_weight_initializer = ex_weight_init,
     arg_bias_initializer = ex_bias_init, arg_parallel_input = None,
     arg_stream_chunk_num = Some 3\<rparr>"

definition ex_row_chunked :: "int row_layer" where
  "ex_row_chunked = \<lparr>in_features = 2, out_features = 4, skip_bias_add = False,
     process_group = ex_pg 1 0, randomizer = \<lparr>rand_state = 1234\<rparr>,
     weight = ex_W4, bias = None, training = False,
     stream_chunk_num = 3, parallel_input = True, num_partitions = 1,
     weight_list = Some [(0, 2), (2, 2)]\<rparr>"


section \<open>Auxiliary lemmas\<close>

subsection \<open>Chunks of the output dimension\<close>

lemma F_linear_view: "F_linear X (view W v) = cslice v (F_linear X W)"
  by (simp add: F_linear_def view_def cslice_def take_map drop_map min.commute)

lemma slice_map2: "take l (drop s (map2 f a b)) = map2 f (take l (drop s a)) (take l (drop s b))"
  by (simp add: take_map drop_map take_zip drop_zip)

lemma cslice_tadd: "cslice v (tadd a b) = tadd (cslice v a) (cslice v b)"
  by (simp add: cslice_def tadd_def zip_map_map split_def take_map drop_map take_zip drop_zip)

lemma cslice_tensor_sum: "ts \<noteq> [] \<Longrightarrow> cslice v (tensor_sum ts) = tensor_sum (map (cslice v) ts)"
  by (induction ts rule: tensor_sum.induct) (simp_all add: cslice_tadd)

lemma map2_same: "map2 h (map f xs) (map g xs) = map (\<lambda>x. h (f x) (g x)) xs"
  by (induction xs) simp_all

lemma tcat_cslice:
  "vs \<noteq> [] \<Longrightarrow> tcat (map (\<lambda>v. cslice v T) vs) =
     \<lparr>lead = lead T, ncols = sum_list (map (\<lambda>v. min (snd v) (ncols T - fst v)) vs),
      rows = map (\<lambda>r. concat (map (\<lambda>v. take (snd v) (drop (fst v) r)) vs)) (rows T)\<rparr>"
proof (induction vs rule: list_nonempty_induct)
  case (single v)
  then show ?case by (simp add: cslice_def)
next
  case (cons v vs)
  then obtain u us where "vs = u # us" by (cases vs) auto
  with cons show ?case by (simp add: cslice_def map2_same)
qed

lemma concat_blocks: "concat (map (\<lambda>j. take s (drop (j * s) r)) [0..<k]) = take (k * s) r"
proof (induction k)
  case 0 show ?case by simp
next
  case (Suc k)
  have "take (Suc k * s) r = take (k * s + s) r" by (simp add: add.commute)
  also have "\<dots> = take (k * s) r @ take s (drop (k * s) r)" by (rule take_add)
  finally show ?case using Suc by simp
qed

lemma concat_torch_chunk:
  assumes "0 < n" "length r = d"
  shows "concat (map (\<lambda>v. take (snd v) (drop (fst v) r)) (torch_chunk d n)) = r"
proof (cases "d = 0")
  case True
  with assms show ?thesis by (simp add: torch_chunk_def)
next
  case False
  define s where "s = (d + n - 1) div n"
  define k where "k = (d + s - 1) div s"
  have s: "0 < s" using False assms(1) unfolding s_def by (simp add: div_greater_zero_iff)
  have ks: "d \<le> k * s"
  proof -
    have "(d + s - 1) mod s < s" using s by simp
    moreover have "d + s - 1 = k * s + (d + s - 1) mod s" unfolding k_def by simp
    ultimately have "d + s - 1 < k * s + s" by linarith
    then show ?thesis using s by linarith
  qed
  have tc: "torch_chunk d n = map (\<lambda>j. (j * s, min s (d - j * s))) [0..<k]"
    using False unfolding torch_chunk_def Let_def s_def[symmetric] k_def[symmetric] by simp
  have "take (min s (d - j * s)) (drop (j * s) r) = take s (drop (j * s) r)" for j
    using assms(2) by (simp add: min_def)
  then have "map (\<lambda>v. take (snd v) (drop (fst v) r)) (torch_chunk d n)
        = map (\<lambda>j. take s (drop (j * s) r)) [0..<k]"
    by (simp add: tc o_def)
  then show ?thesis using ks assms(2) by (simp add: concat_blocks)
qed


lemma sum_torch_chunk:
  assumes "0 < n"
  shows "sum_list (map (\<lambda>v. min (snd v) (d - fst v)) (torch_chunk d n)) = d"
proof -
  let ?r = "replicate d ()"
  have "length (concat (map (\<lambda>v. take (snd v) (drop (fst v) ?r)) (torch_chunk d n))) = d"
    using concat_torch_chunk[OF assms, of ?r d] by simp
  then show ?thesis by (simp add: length_concat o_def min.commute)
qed

lemma torch_chunk_nonempty: "0 < n \<Longrightarrow> torch_chunk d n \<noteq> []"
  using sum_torch_chunk[of n d] by (cases "d = 0") (auto simp: torch_chunk_def)

lemma tcat_torch_chunk:
  assumes "wf_tensor T" "0 < n"
  shows "tcat (map (\<lambda>v. cslice v T) (torch_chunk (ncols T) n)) = T"
proof -
  have "map (\<lambda>r. concat (map (\<lambda>v. take (snd v) (drop (fst v) r)) (torch_chunk (ncols T) n))) (rows T)
        = map (\<lambda>r. r) (rows T)"
    using assms by (intro map_cong refl concat_torch_chunk) (auto simp: wf_tensor_def list_all_iff)
  then show ?thesis
    using assms(2) by (simp add: tcat_cslice torch_chunk_nonempty sum_torch_chunk)
qed

lemma wf_F_linear: "wf_tensor (F_linear X W)"
  by (simp add: wf_tensor_def F_linear_def list_all_iff)

lemma ncols_F_linear: "ncols (F_linear X W) = length (rows W)"
  by (simp add: F_linear_def)

lemma wf_tadd:
  assumes "wf_tensor a" "wf_tensor b" "ncols b = ncols a"
  shows "wf_tensor (tadd a b)"
proof -
  have "length (map2 (+) (fst p) (snd p)) = ncols a" if "p \<in> set (zip (rows a) (rows b))" for p
  proof -
    obtain x y where p: "p = (x, y)" by (cases p)
    with that have "fst p \<in> set (rows a)" "snd p \<in> set (rows b)"
      by (auto dest: set_zip_leftD set_zip_rightD)
    with assms show ?thesis by (simp add: wf_tensor_def list_all_iff)
  qed
  then show ?thesis by (simp add: wf_tensor_def tadd_def list_all_iff split_def)
qed

lemma ncols_tensor_sum: "ts \<noteq> [] \<Longrightarrow> ncols (tensor_sum ts) = ncols (hd ts)"
  by (induction ts rule: tensor_sum.induct) (simp_all add: tadd_def)

lemma wf_tensor_sum:
  "ts \<noteq> [] \<Longrightarrow> \<forall>t \<in> set ts. wf_tensor t \<and> ncols t = d \<Longrightarrow> wf_tensor (tensor_sum ts) \<and> ncols (tensor_sum ts) = d"
proof (induction ts rule: tensor_sum.induct)
  case 1 then show ?case by simp
next
  case (2 t) then show ?case by simp
next
  case (3 t v va)
  have t: "wf_tensor t" "ncols t = d" using 3(3) by simp_all
  have "\<forall>u \<in> set (v # va). wf_tensor u \<and> ncols u = d" using 3(3) by simp
  then have r: "wf_tensor (tensor_sum (v # va))" "ncols (tensor_sum (v # va)) = d"
    using 3(1) by blast+
  have "wf_tensor (tadd t (tensor_sum (v # va)))"
    using t r by (intro wf_tadd) simp_all
  moreover have "ncols (tadd t (tensor_sum (v # va))) = d" using t by (simp add: tadd_def)
  ultimately show ?case by simp
qed

lemma chunked_sum:
  assumes "G \<noteq> []" "0 < n" "\<forall>p \<in> set G. length (rows (snd p)) = d"
  shows "tcat (map (\<lambda>v. tensor_sum (map (\<lambda>p. F_linear (fst p) (view (snd p) v)) G)) (torch_chunk d n))
         = tensor_sum (map (\<lambda>p. F_linear (fst p) (snd p)) G)"
proof -
  let ?T = "tensor_sum (map (\<lambda>p. F_linear (fst p) (snd p)) G)"
  have wf: "wf_tensor ?T \<and> ncols ?T = d"
    using assms by (intro wf_tensor_sum) (auto simp: wf_F_linear ncols_F_linear)
  have "tensor_sum (map (\<lambda>p. F_linear (fst p) (view (snd p) v)) G) = cslice v ?T" for v
    using assms(1) by (simp add: F_linear_view cslice_tensor_sum o_def)
  then show ?thesis using tcat_torch_chunk[of ?T n] wf assms(2) by simp
qed

subsection \<open>Shards of the input dimension\<close>








subsection \<open>The group in rank order\<close>

lemma those_map_Some: "those (map (\<lambda>x. Some (f x)) xs) = Some (map f xs)"
  by (induction xs) simp_all

lemma in_rank_order_map: "in_rank_order r (f a) (map f bs) = map f (in_rank_order r a bs)"
  by (simp add: in_rank_order_def take_map drop_map)

lemma in_rank_order_nonempty: "in_rank_order r a bs \<noteq> []"
  by (simp add: in_rank_order_def)



lemma set_in_rank_order: "set (in_rank_order r a bs) = insert a (set bs)"
proof -
  have "set (take r bs) \<union> set (drop r bs) = set bs"
    by (metis append_take_drop_id set_append)
  then show ?thesis by (auto simp: in_rank_order_def)
qed

lemma row_partial_those:
  "those (map row_partial peers) =
     Some (map (\<lambda>p. F_linear (row_local_input (fst p) (snd p)) (weight (fst p))) peers)"
  unfolding row_partial_def by (rule those_map_Some)




subsection \<open>Forward passes and construction\<close>

lemma row_check_input_events: "snd (row_check_input self inp) = [] \<or> snd (row_check_input self inp) = [EvSplit]"
  by (simp add: row_check_input_def split: sum.splits)

lemma ambient_log: "ambient_rng (log e w) = ambient_rng w"
  by (simp add: log_def)

lemma ambient_fork_rng: "ambient_rng (snd (fork_rng rnd body w)) = ambient_rng w"
  by (simp add: fork_rng_def Let_def)

lemma ambient_make_weight: "ambient_rng (snd (make_weight shard args w)) = ambient_rng w"
  by (simp add: make_weight_def ambient_log split: option.splits sum.splits)

lemma ambient_make_bias: "ambient_rng (snd (make_bias sharded args w)) = ambient_rng w"
  by (simp add: make_bias_def ambient_log split: option.splits sum.splits)

lemma ambient_col_reset:
  "ambient_rng (snd (Linear1D_Col_reset_parameters wi bi self w)) = ambient_rng w"
proof -
  obtain res rnd w' where f: "fork_rng (randomizer self) (col_reset_body wi bi self) w = ((res, rnd), w')"
    by (metis prod.exhaust)
  then have "ambient_rng w' = ambient_rng w"
    using ambient_fork_rng[of "randomizer self" "col_reset_body wi bi self" w] by simp
  then show ?thesis
    by (simp add: Linear1D_Col_reset_parameters_def f split: sum.splits)
qed

lemma ambient_col_init: "ambient_rng (snd (Linear1D_Col_init args w)) = ambient_rng w"
proof -
  let ?w1 = "log EvRandomizer w"
  obtain r2 w2 where mw: "make_weight shard_rowwise args ?w1 = (r2, w2)" by (metis prod.exhaust)
  obtain r3 w3 where mb: "make_bias True args w2 = (r3, w3)" by (metis prod.exhaust)
  have a2: "ambient_rng w2 = ambient_rng w"
    using ambient_make_weight[of shard_rowwise args ?w1] mw by (simp add: ambient_log)
  have a3: "ambient_rng w3 = ambient_rng w"
    using ambient_make_bias[of True args w2] mb a2 by simp
  show ?thesis
    by (simp add: Linear1D_Col_init_def Let_def mw mb a2 a3 ambient_log ambient_col_reset
        split: option.splits sum.splits)
qed

lemma ambient_row_scoped_reset:
  "ambient_rng (snd (row_scoped_reset from_root wi bi self w)) = ambient_rng w"
proof -
  obtain res rnd w' where f: "fork_rng (randomizer self) (Linear1D_Row_reset_parameters from_root wi bi self) w = ((res, rnd), w')"
    by (metis prod.exhaust)
  then have "ambient_rng w' = ambient_rng w"
    using ambient_fork_rng[of "randomizer self" "Linear1D_Row_reset_parameters from_root wi bi self" w] by simp
  then show ?thesis
    by (simp add: row_scoped_reset_def f split: sum.splits)
qed

lemma ambient_row_init: "ambient_rng (snd (Linear1D_Row_init from_root args w)) = ambient_rng w"
proof -
  let ?w1 = "log EvRandomizer w"
  obtain r2 w2 where mw: "make_weight shard_colwise args ?w1 = (r2, w2)" by (metis prod.exhaust)
  obtain r3 w3 where mb: "make_bias False args w2 = (r3, w3)" by (metis prod.exhaust)
  have a2: "ambient_rng w2 = ambient_rng w"
    using ambient_make_weight[of shard_colwise args ?w1] mw by (simp add: ambient_log)
  have a3: "ambient_rng w3 = ambient_rng w"
    using ambient_make_bias[of False args w2] mb a2 by simp
  show ?thesis
    by (simp add: Linear1D_Row_init_def Let_def mw mb a2 a3 ambient_log ambient_row_scoped_reset
        split: option.splits sum.splits)
qed







lemma row_chunk_partial_those:
  assumes "\<forall>p \<in> set peers. weight_list (fst p) = Some vs" "i < length vs"
  shows "those (map (row_chunk_partial i) peers) =
     Some (map (\<lambda>p. F_linear (row_local_input (fst p) (snd p)) (view (weight (fst p)) (vs ! i))) peers)"
proof -
  have "map (row_chunk_partial i) peers =
     map (\<lambda>p. Some (F_linear (row_local_input (fst p) (snd p)) (view (weight (fst p)) (vs ! i)))) peers"
    using assms by (intro map_cong refl) (simp add: row_chunk_partial_def)
  then show ?thesis by (simp only: those_map_Some)
qed

lemma chunk_loop_all:
  assumes "weight_list self = Some vs" "\<forall>p \<in> set peers. weight_list (fst p) = Some vs"
    and "\<forall>j \<in> set js. j < length vs"
  shows "chunk_loop self x peers js =
     (Inr (map (\<lambda>i. Inr (tensor_sum (in_rank_order (rank (process_group self))
                 (F_linear x (view (weight self) (vs ! i)))
                 (map (\<lambda>p. F_linear (row_local_input (fst p) (snd p)) (view (weight (fst p)) (vs ! i))) peers)))) js),
      map EvAllReduceAsync js)"
  using assms(3)
proof (induction js)
  case Nil
  show ?case by simp
next
  case (Cons i js)
  then have i: "i < length vs" by simp
  show ?case
    using Cons assms(1) i
    by (simp add: weight_list_item_def all_reduce_def row_chunk_partial_those[OF assms(2) i])
qed

lemma wait_all_Inr: "wait_all i (map Inr ts) = (Inr ts, map EvWait [i..<i + length ts])"
proof (induction ts arbitrary: i)
  case Nil
  show ?case by simp
next
  case (Cons t ts)
  have "[i..<i + length (t # ts)] = i # [Suc i..<Suc i + length ts]"
    using upt_conv_Cons[of i "i + Suc (length ts)"] by simp
  with Cons[of "Suc i"] show ?case by simp
qed

lemma torch_chunk_length_dvd:
  assumes "0 < n" "n dvd d"
  shows "length (torch_chunk d n) = n"
proof (cases "d = 0")
  case True
  then show ?thesis by (simp add: torch_chunk_def)
next
  case False
  from assms obtain s where d: "d = n * s" by (auto simp: dvd_def)
  with False have s: "0 < s" by simp
  have a: "(d + n - 1) div n = s"
    using assms(1) d by (intro div_nat_eqI) simp_all
  have b: "(d + s - 1) div s = n"
    using s d by (intro div_nat_eqI) (simp_all add: mult.commute)
  show ?thesis using False unfolding torch_chunk_def Let_def a b by simp
qed

lemma row_chunked_eq_standard:
  assumes n: "1 < stream_chunk_num self"
    and inv: "\<forall>l \<in> set (self # map fst peers). length (rows (weight l)) = d \<and>
                weight_list l = Some (torch_chunk d (nat (stream_chunk_num self)))"
    and full: "length (torch_chunk d (nat (stream_chunk_num self))) = nat (stream_chunk_num self)"
  shows "fst (row_chunked self (row_local_input self inp) peers)
         = fst (row_standard self (row_local_input self inp) peers)"
proof -
  let ?n = "nat (stream_chunk_num self)"
  let ?vs = "torch_chunk d ?n"
  let ?r = "rank (process_group self)"
  let ?x = "row_local_input self inp"
  let ?q = "\<lambda>p. (row_local_input (fst p) (snd p), weight (fst p))"
  let ?G = "in_rank_order ?r (?x, weight self) (map ?q peers)"
  let ?part = "\<lambda>v. tensor_sum (map (\<lambda>q. F_linear (fst q) (view (snd q) v)) ?G)"
  have n0: "0 < ?n" using n by simp
  have ws: "weight_list self = Some ?vs" and wp: "\<forall>p \<in> set peers. weight_list (fst p) = Some ?vs"
    using inv by simp_all
  have js: "\<forall>j \<in> set [0..<?n]. j < length ?vs" using full by simp
  have each: "tensor_sum (in_rank_order ?r (F_linear ?x (view (weight self) v))
                 (map (\<lambda>p. F_linear (row_local_input (fst p) (snd p)) (view (weight (fst p)) v)) peers))
              = ?part v" for v
    using in_rank_order_map[of ?r "\<lambda>q. F_linear (fst q) (view (snd q) v)" "(?x, weight self)" "map ?q peers"]
    by (simp add: o_def)
  have loop: "chunk_loop self ?x peers [0..<?n] =
      (Inr (map Inr (map (\<lambda>i. ?part (?vs ! i)) [0..<?n])), map EvAllReduceAsync [0..<?n])"
    using chunk_loop_all[OF ws wp js, of ?x] by (simp add: each o_def)
  have nth: "map (\<lambda>i. ?part (?vs ! i)) [0..<?n] = map ?part ?vs"
    using full by (intro nth_equalityI) simp_all
  have ne: "map ?part ?vs \<noteq> []" using full n0 by auto
  have dG: "\<forall>p \<in> set ?G. length (rows (snd p)) = d"
    using inv by (auto simp: set_in_rank_order)
  have cat: "tcat (map ?part ?vs) = tensor_sum (map (\<lambda>p. F_linear (fst p) (snd p)) ?G)"
    by (rule chunked_sum[OF in_rank_order_nonempty n0 dG])
  note loop' = loop[unfolded nth]
  have w: "wait_all 0 (map Inr (map ?part ?vs)) =
      (Inr (map ?part ?vs), map EvWait [0..<0 + length (map ?part ?vs)])"
    by (rule wait_all_Inr)
  have "row_chunked self ?x peers =
      (torch_cat (map ?part ?vs),
       map EvAllReduceAsync [0..<?n] @ map EvWait [0..<0 + length (map ?part ?vs)])"
    unfolding row_chunked_def loop' by (simp only: prod.case sum.case w)
  then have "fst (row_chunked self ?x peers) = Inr (tcat (map ?part ?vs))"
    using ne by (simp add: torch_cat_def)
  moreover have "fst (row_standard self ?x peers) = Inr (tensor_sum (map (\<lambda>p. F_linear (fst p) (snd p)) ?G))"
    using in_rank_order_map[of ?r "\<lambda>q. F_linear (fst q) (snd q)" "(?x, weight self)" "map ?q peers"]
    by (simp add: row_standard_def all_reduce_def row_partial_those o_def)
  ultimately show ?thesis using cat by simp
qed

lemma row_check_input_local:
  "fst (row_check_input self inp) = Inr x \<Longrightarrow> x = row_local_input self inp"
  by (auto simp: row_check_input_def row_local_input_def split: if_splits sum.splits)

lemma chunked_forward_eq_standard:
  assumes "1 < stream_chunk_num self" "\<not> training self"
    and "\<forall>l \<in> set (self # map fst peers). length (rows (weight l)) = d \<and>
                weight_list l = Some (torch_chunk d (nat (stream_chunk_num self)))"
    and "length (torch_chunk d (nat (stream_chunk_num self))) = nat (stream_chunk_num self)"
  shows "fst (Linear1D_Row_forward self inp peers)
         = fst (Linear1D_Row_forward (self\<lparr>stream_chunk_num := 1\<rparr>) inp peers)"
proof -
  have c: "row_check_input (self\<lparr>stream_chunk_num := 1\<rparr>) inp = row_check_input self inp"
    by (simp add: row_check_input_def split: sum.splits)
  have s: "row_standard (self\<lparr>stream_chunk_num := 1\<rparr>) x peers = row_standard self x peers" for x
    by (simp add: row_standard_def)
  have f: "row_finish (self\<lparr>stream_chunk_num := 1\<rparr>) t = row_finish self t" for t
    by (simp add: row_finish_def)
  obtain r ev where chk: "row_check_input self inp = (r, ev)" by (metis prod.exhaust)
  show ?thesis
  proof (cases r)
    case (Inl e)
    with chk show ?thesis by (simp add: Linear1D_Row_forward_def c)
  next
    case (Inr x)
    with chk have x: "x = row_local_input self inp"
      using row_check_input_local[of self inp x] by simp
    have eq: "fst (row_chunked self x peers) = fst (row_standard self x peers)"
      unfolding x by (rule row_chunked_eq_standard[OF assms(1,3,4)])
    obtain a ea where A: "row_chunked self x peers = (a, ea)" by (metis prod.exhaust)
    obtain b eb where B: "row_standard self x peers = (b, eb)" by (metis prod.exhaust)
    from eq A B have ab: "a = b" by simp
    show ?thesis
      using assms(1,2) chk Inr A B ab
      by (cases b) (simp_all add: Linear1D_Row_forward_def c s f)
  qed
qed

text \<open>Four rows in two chunks: the chunked forward and the Standard-mode forward agree.\<close>

lemma chunked_forward_eq_standard_example:
  "Linear1D_Row_forward (ex_row_chunked\<lparr>stream_chunk_num := 2, weight_list := Some (torch_chunk 4 2)\<rparr>)
      \<lparr>lead = [1], ncols = 2, rows = [[1, 1]]\<rparr> [] =
     (Inr (Out \<lparr>lead = [1], ncols = 4, rows = [[3, 7, 11, 15]]\<rparr>),
      [EvAllReduceAsync 0, EvAllReduceAsync 1, EvWait 0, EvWait 1])
   \<and> fst (Linear1D_Row_forward (ex_row_chunked\<lparr>stream_chunk_num := 2, weight_list := Some (torch_chunk 4 2)\<rparr>)
      \<lparr>lead = [1], ncols = 2, rows = [[1, 1]]\<rparr> []) =
     fst (Linear1D_Row_forward
            (ex_row_chunked\<lparr>stream_chunk_num := 2, weight_list := Some (torch_chunk 4 2)\<rparr>
               \<lparr>stream_chunk_num := 1\<rparr>)
      \<lparr>lead = [1], ncols = 2, rows = [[1, 1]]\<rparr> [])"
proof -
  let ?l = "ex_row_chunked\<lparr>stream_chunk_num := 2, weight_list := Some (torch_chunk 4 2)\<rparr>"
  have h: "1 < stream_chunk_num ?l" "\<not> training ?l"
    "\<forall>l \<in> set (?l # map fst []). length (rows (weight l)) = 4 \<and>
        weight_list l = Some (torch_chunk 4 (nat (stream_chunk_num ?l)))"
    "length (torch_chunk 4 (nat (stream_chunk_num ?l))) = nat (stream_chunk_num ?l)"
    by code_simp+
  have v: "Linear1D_Row_forward ?l \<lparr>lead = [1], ncols = 2, rows = [[1, 1]]\<rparr> [] =
     (Inr (Out \<lparr>lead = [1], ncols = 4, rows = [[3, 7, 11, 15]]\<rparr>),
      [EvAllReduceAsync 0, EvAllReduceAsync 1, EvWait 0, EvWait 1])"
    by code_simp
  show ?thesis
    by (rule conjI[OF v chunked_forward_eq_standard[OF h]])
qed






text \<open>
  The shape assertions of the two forward functions: where the assertion is reached with
  an input of another last dimension, the call fails with the message that names the
  input shape, the weight shape and the expected value, and has issued nothing. A
  replicated input of another width than expected fails locally in every case.
\<close>

lemma shape_mismatch_diagnostic:
  "(ncols inp \<noteq> ncols (weight cself) \<longrightarrow>
      Linear1D_Col_forward cself inp cpeers =
        (Inl (AssertionError (invalid_shapes ''Linear1D_Col'' (shape inp) (shape (weight cself))
                (ncols (weight cself)))), []))
   \<and> (parallel_input rself \<and> ncols inp \<noteq> ncols (weight rself) \<longrightarrow>
      Linear1D_Row_forward rself inp rpeers =
        (Inl (AssertionError (invalid_shapes ''Linear1D_Row'' (shape inp) (shape (weight rself))
                (ncols (weight rself)))), []))
   \<and> (\<not> parallel_input rself \<and> 0 < num_partitions rself \<and> num_partitions rself dvd ncols inp
        \<and> ncols inp \<noteq> num_partitions rself * ncols (weight rself) \<longrightarrow>
      Linear1D_Row_forward rself inp rpeers =
        (Inl (AssertionError (invalid_shapes ''Linear1D_Row'' (shape inp) (shape (weight rself))
                (ncols (weight rself) * num_partitions rself))), []))"
proof (intro conjI impI)
  assume "ncols inp \<noteq> ncols (weight cself)"
  then show "Linear1D_Col_forward cself inp cpeers =
        (Inl (AssertionError (invalid_shapes ''Linear1D_Col'' (shape inp) (shape (weight cself))
                (ncols (weight cself)))), [])"
    by (simp add: Linear1D_Col_forward_def)
next
  assume "parallel_input rself \<and> ncols inp \<noteq> ncols (weight rself)"
  then show "Linear1D_Row_forward rself inp rpeers =
        (Inl (AssertionError (invalid_shapes ''Linear1D_Row'' (shape inp) (shape (weight rself))
                (ncols (weight rself)))), [])"
    by (simp add: Linear1D_Row_forward_def row_check_input_def)
next
  assume a: "\<not> parallel_input rself \<and> 0 < num_partitions rself \<and> num_partitions rself dvd ncols inp
        \<and> ncols inp \<noteq> num_partitions rself * ncols (weight rself)"
  then obtain q where q: "ncols inp = num_partitions rself * q" by (auto simp: dvd_def)
  with a have "divide_utils (ncols inp) (num_partitions rself) = Inr q" "q \<noteq> ncols (weight rself)"
    by (auto simp: divide_utils_def)
  with a show "Linear1D_Row_forward rself inp rpeers =
        (Inl (AssertionError (invalid_shapes ''Linear1D_Row'' (shape inp) (shape (weight rself))
                (ncols (weight rself) * num_partitions rself))), [])"
    by (simp add: Linear1D_Row_forward_def row_check_input_def)
qed

lemma shape_mismatch_diagnostic_example:
  "Linear1D_Col_forward (ex_col 0) \<lparr>lead = [2, 1], ncols = 3, rows = [[1, 1, 1], [1, 1, 1]]\<rparr> [] =
     (Inl (AssertionError ''Invalid shapes in Linear1D_Col forward: input=torch.Size([2, 1, 3]), weight=torch.Size([1, 4]). Expected last dim of input 4.''), [])
   \<and> Linear1D_Row_forward (ex_row 0) \<lparr>lead = [2, 1], ncols = 3, rows = [[1, 1, 1], [1, 1, 1]]\<rparr> [] =
     (Inl (AssertionError ''Invalid shapes in Linear1D_Row forward: input=torch.Size([2, 1, 3]), weight=torch.Size([2, 2]). Expected last dim of input 2.''), [])
   \<and> Linear1D_Row_forward ((ex_row 0)\<lparr>parallel_input := False\<rparr>) \<lparr>lead = [1], ncols = 6, rows = [[1, 1, 1, 1, 1, 1]]\<rparr> [] =
     (Inl (AssertionError ''Invalid shapes in Linear1D_Row forward: input=torch.Size([1, 6]), weight=torch.Size([2, 2]). Expected last dim of input 4.''), [])"
proof -
  let ?x3 = "\<lparr>lead = [2, 1], ncols = 3, rows = [[1, 1, 1], [1, 1, 1::int]]\<rparr>"
  let ?x6 = "\<lparr>lead = [1], ncols = 6, rows = [[1, 1, 1, 1, 1, 1::int]]\<rparr>"
  let ?r = "(ex_row 0)\<lparr>parallel_input := False\<rparr>"
  have h: "ncols ?x3 \<noteq> ncols (weight (ex_col 0))"
    "parallel_input (ex_row 0) \<and> ncols ?x3 \<noteq> ncols (weight (ex_row 0))"
    "\<not> parallel_input ?r \<and> 0 < num_partitions ?r \<and> num_partitions ?r dvd ncols ?x6
        \<and> ncols ?x6 \<noteq> num_partitions ?r * ncols (weight ?r)"
    by code_simp+
  have m: "invalid_shapes ''Linear1D_Col'' (shape ?x3) (shape (weight (ex_col 0))) (ncols (weight (ex_col 0)))
      = ''Invalid shapes in Linear1D_Col forward: input=torch.Size([2, 1, 3]), weight=torch.Size([1, 4]). Expected last dim of input 4.''"
    "invalid_shapes ''Linear1D_Row'' (shape ?x3) (shape (weight (ex_row 0))) (ncols (weight (ex_row 0)))
      = ''Invalid shapes in Linear1D_Row forward: input=torch.Size([2, 1, 3]), weight=torch.Size([2, 2]). Expected last dim of input 2.''"
    "invalid_shapes ''Linear1D_Row'' (shape ?x6) (shape (weight ?r)) (ncols (weight ?r) * num_partitions ?r)
      = ''Invalid shapes in Linear1D_Row forward: input=torch.Size([1, 6]), weight=torch.Size([2, 2]). Expected last dim of input 4.''"
    by code_simp+
  show ?thesis
    using shape_mismatch_diagnostic[of ?x3 "ex_col 0" "[]" "ex_row 0" "[]"]
      shape_mismatch_diagnostic[of ?x6 "ex_col 0" "[]" ?r "[]"] h m
    by simp
qed

lemma replicated_mismatch_fails_locally:
  assumes "\<not> parallel_input self" "ncols inp \<noteq> num_partitions self * ncols (weight self)"
  shows "\<exists>m. Linear1D_Row_forward self inp peers = (Inl (AssertionError m), [])"
proof (cases "divide_utils (ncols inp) (num_partitions self)")
  case (Inl e)
  then obtain m where "e = AssertionError m"
    by (auto simp: divide_utils_def split: if_splits)
  with Inl assms(1) show ?thesis
    by (simp add: Linear1D_Row_forward_def row_check_input_def)
next
  case (Inr q)
  then have "ncols inp = num_partitions self * q"
    by (auto simp: divide_utils_def split: if_splits)
  with assms(2) have "q \<noteq> ncols (weight self)" by auto
  with Inr assms(1) show ?thesis
    by (simp add: Linear1D_Row_forward_def row_check_input_def)
qed

section \<open>The claims\<close>

text \<open>
  C1: in inference mode with \<open>stream_chunk_num > 1\<close> the chunked forward should return what
  the Standard-mode forward returns. It does (lemma \<open>chunked_forward_eq_standard\<close> above)
  whenever \<open>torch.chunk\<close> cuts the rows of the weight into exactly \<open>stream_chunk_num\<close> chunks.
  When it returns fewer, the loop over \<open>range(stream_chunk_num)\<close> indexes past the end of
  \<open>weight_list\<close>: a layer built with \<open>out_features = 4\<close> and \<open>stream_chunk_num = 3\<close> holds two
  chunks of two rows, and its forward in inference mode raises \<open>IndexError\<close> after two
  reductions have been issued, where the Standard-mode forward of the same layer returns
  the output.
\<close>

theorem chunked_forward_index_error:
  "Linear1D_Row_init None ex_chunk_args ex_world =
     (Inr (ex_row_chunked\<lparr>training := True\<rparr>),
      \<lparr>ambient_rng = 7, initial_seed = 1234, events = [EvRandomizer, EvShard]\<rparr>)
   \<and> Linear1D_Row_forward ex_row_chunked \<lparr>lead = [1], ncols = 2, rows = [[1, 1]]\<rparr> [] =
       (Inl (IndexError ''tuple index out of range''), [EvAllReduceAsync 0, EvAllReduceAsync 1])
   \<and> Linear1D_Row_forward (ex_row_chunked\<lparr>stream_chunk_num := 1\<rparr>) \<lparr>lead = [1], ncols = 2, rows = [[1, 1]]\<rparr> [] =
       (Inr (Out \<lparr>lead = [1], ncols = 4, rows = [[3, 7, 11, 15]]\<rparr>), [EvAllReduce])"
  by code_simp



text \<open>
  C3: the conversion of a dense layer returns the dense module itself, and touches
  nothing, when the feature count that would be sharded (\<open>out_features\<close> for the column
  layer, \<open>in_features\<close> for the row layer) is smaller than the world size of the group. The
  group is passed as such or as a list of one.
\<close>

theorem conversion_keeps_small_dense:
  assumes "pga = Group g \<or> pga = Groups [g]"
  shows "(lin_out_features m < int (world_size g) \<longrightarrow>
            Linear1D_Col_from_native_module m pga ckw w = (Inr (Native m), w))
       \<and> (lin_in_features m < int (world_size g) \<longrightarrow>
            Linear1D_Row_from_native_module from_root m pga rkw w = (Inr (Native m), w))"
  using assms
  by (auto simp: Linear1D_Col_from_native_module_def Linear1D_Row_from_native_module_def
      one_process_group_def materialize_def)

theorem conversion_keeps_small_dense_witness:
  "Linear1D_Col_from_native_module ex_dense (Groups [ex_pg 16 3]) ex_col_args ex_world = (Inr (Native ex_dense), ex_world)
   \<and> Linear1D_Row_from_native_module None ex_dense (Group (ex_pg 16 3)) ex_row_args ex_world = (Inr (Native ex_dense), ex_world)"
  using conversion_keeps_small_dense[of "Groups [ex_pg 16 3]" "ex_pg 16 3" ex_dense ex_col_args ex_world None ex_row_args]
    conversion_keeps_small_dense[of "Group (ex_pg 16 3)" "ex_pg 16 3" ex_dense ex_col_args ex_world None ex_row_args]
  by (simp add: ex_dense_def ex_pg_def)

text \<open>
  C4: when the feature count is at least the world size and not a multiple of it, the
  conversion raises a \<open>ValueError\<close> whose message names the feature count and the world
  size, and constructs nothing: for \<open>in_features = 10\<close> and a world size of 3 the message
  names 10 and 3.
\<close>

theorem conversion_rejects_indivisible:
  assumes "pga = Group g \<or> pga = Groups [g]" "0 < world_size g"
  shows "(int (world_size g) \<le> lin_out_features m \<and> lin_out_features m mod int (world_size g) \<noteq> 0 \<longrightarrow>
            Linear1D_Col_from_native_module m pga ckw w =
              (Inl (ValueError (not_multiple ''out_features'' (lin_out_features m) (int (world_size g)))), w))
       \<and> (int (world_size g) \<le> lin_in_features m \<and> lin_in_features m mod int (world_size g) \<noteq> 0 \<longrightarrow>
            Linear1D_Row_from_native_module from_root m pga rkw w =
              (Inl (ValueError (not_multiple ''in_features'' (lin_in_features m) (int (world_size g)))), w))"
  using assms
  by (auto simp: Linear1D_Col_from_native_module_def Linear1D_Row_from_native_module_def
      one_process_group_def materialize_def)

theorem conversion_rejects_indivisible_witness:
  "Linear1D_Row_from_native_module None ex_dense (Group (ex_pg 3 0)) ex_row_args ex_world =
     (Inl (ValueError ''The size of in_features:10 is not integer multiples of tensor parallel size: 3!''), ex_world)
   \<and> Linear1D_Col_from_native_module ex_dense (Group (ex_pg 3 0)) ex_col_args ex_world =
     (Inl (ValueError ''The size of out_features:10 is not integer multiples of tensor parallel size: 3!''), ex_world)"
proof -
  have m: "not_multiple ''in_features'' 10 3 = ''The size of in_features:10 is not integer multiples of tensor parallel size: 3!''"
     "not_multiple ''out_features'' 10 3 = ''The size of out_features:10 is not integer multiples of tensor parallel size: 3!''"
    by code_simp+
  show ?thesis
    using conversion_rejects_indivisible[of "Group (ex_pg 3 0)" "ex_pg 3 0" ex_dense ex_col_args ex_world None ex_row_args] m
    by (simp add: ex_dense_def ex_pg_def)
qed

text \<open>
  C5, as amended: a row-parallel layer with \<open>stream_chunk_num > 1\<close> in training mode fails on
  every input before any chunk is computed and with no collective issued; the error is the
  training error for every input that passes the shape assertion of lines 347 to 356. The
  shape assertion comes first: an input of another width raises it instead, which refutes
  the claim for every input.
\<close>

theorem chunked_forward_refused_in_training:
  assumes "1 < stream_chunk_num self" "training self"
  shows "(\<exists>e. fst (Linear1D_Row_forward self inp peers) = Inl e)
       \<and> list_all (\<lambda>e. \<not> is_collective e) (snd (Linear1D_Row_forward self inp peers))
       \<and> ((if parallel_input self then ncols inp = ncols (weight self)
            else divide_utils (ncols inp) (num_partitions self) = Inr (ncols (weight self))) \<longrightarrow>
           fst (Linear1D_Row_forward self inp peers) =
             Inl (RuntimeError ''use stream_chunk_num=1 in Linear1D_Row for training!''))"
  using assms
  by (auto simp: Linear1D_Row_forward_def row_check_input_def split: sum.splits)

theorem chunked_forward_refused_in_training_witness:
  "fst (Linear1D_Row_forward ex_row_train \<lparr>lead = [1], ncols = 2, rows = [[1, 1]]\<rparr> []) =
     Inl (RuntimeError ''use stream_chunk_num=1 in Linear1D_Row for training!'')
   \<and> list_all (\<lambda>e. \<not> is_collective e)
        (snd (Linear1D_Row_forward ex_row_train \<lparr>lead = [1], ncols = 2, rows = [[1, 1]]\<rparr> []))"
proof -
  have h: "1 < stream_chunk_num ex_row_train" "training ex_row_train"
    by (simp_all add: ex_row_train_def)
  have ok: "if parallel_input ex_row_train
            then ncols \<lparr>lead = [1], ncols = 2, rows = [[1, 1::int]]\<rparr> = ncols (weight ex_row_train)
            else divide_utils (ncols \<lparr>lead = [1], ncols = 2, rows = [[1, 1::int]]\<rparr>) (num_partitions ex_row_train)
                   = Inr (ncols (weight ex_row_train))"
    by code_simp
  from chunked_forward_refused_in_training[OF h, of "\<lparr>lead = [1], ncols = 2, rows = [[1, 1]]\<rparr>" "[]"] ok
  show ?thesis by blast
qed

theorem training_error_counterexample:
  "1 < stream_chunk_num ex_row_train \<and> training ex_row_train \<and>
   fst (Linear1D_Row_forward ex_row_train \<lparr>lead = [1], ncols = 3, rows = [[1, 1, 1]]\<rparr> []) =
     Inl (AssertionError ''Invalid shapes in Linear1D_Row forward: input=torch.Size([1, 3]), weight=torch.Size([2, 2]). Expected last dim of input 2.'')"
  by code_simp

text \<open>
  C6: a constructor called with \<open>skip_bias_add = True\<close> and \<open>bias = False\<close> raises the
  configuration error at once: nothing is allocated, sharded or communicated, the world
  is as before.
\<close>

theorem construction_rejects_skip_without_bias:
  assumes "arg_skip_bias_add cargs = Some True" "arg_bias cargs = Some False"
    and "arg_skip_bias_add rargs = Some True" "arg_bias rargs = Some False"
  shows "Linear1D_Col_init cargs w = (Inl (ValueError ''cannot skip bias addition if bias is None''), w)
       \<and> Linear1D_Row_init from_root rargs w = (Inl (ValueError ''cannot skip bias addition if bias is None''), w)"
  using assms by (simp add: Linear1D_Col_init_def Linear1D_Row_init_def dflt_def)

theorem construction_rejects_skip_without_bias_witness:
  "Linear1D_Col_init ex_col_args ex_world = (Inl (ValueError ''cannot skip bias addition if bias is None''), ex_world)
       \<and> Linear1D_Row_init None ex_row_args ex_world = (Inl (ValueError ''cannot skip bias addition if bias is None''), ex_world)
       \<and> events ex_world = []"
  using construction_rejects_skip_without_bias[of ex_col_args ex_row_args ex_world None]
  by (simp add: ex_col_args_def ex_row_args_def ex_world_def)



text \<open>
  C8: a forward call whose input has another last dimension than expected should fail with
  the assertion that names the input shape, the weight shape and the expected value,
  before any collective. The column layer and the row layer with a sharded input do
  (lemma \<open>shape_mismatch_diagnostic\<close>), and so does the row layer with a replicated input
  whose last dimension is a multiple of the number of partitions. For a replicated input
  whose last dimension is not such a multiple, the condition of the assertion at line 353
  calls \<open>divide\<close>, which fails first: the call still fails locally with no collective
  (lemma \<open>replicated_mismatch_fails_locally\<close>), but the message is that of \<open>divide\<close> and
  names neither shape nor the expected value. On two ranks with a weight shard of width 2,
  an input of width 7 gives \<open>7 is not divisible by 2\<close>, where the same input on the
  sharded-input branch gives the full diagnostic.
\<close>

theorem replicated_input_diagnostic_lost:
  "\<not> parallel_input ((ex_row 0)\<lparr>parallel_input := False\<rparr>)
   \<and> 7 \<noteq> num_partitions ((ex_row 0)\<lparr>parallel_input := False\<rparr>)
            * ncols (weight ((ex_row 0)\<lparr>parallel_input := False\<rparr>))
   \<and> Linear1D_Row_forward ((ex_row 0)\<lparr>parallel_input := False\<rparr>)
        \<lparr>lead = [1], ncols = 7, rows = [[1, 1, 1, 1, 1, 1, 1]]\<rparr> [] =
      (Inl (AssertionError ''7 is not divisible by 2''), [])
   \<and> Linear1D_Row_forward (ex_row 0)
        \<lparr>lead = [1], ncols = 7, rows = [[1, 1, 1, 1, 1, 1, 1]]\<rparr> [] =
      (Inl (AssertionError ''Invalid shapes in Linear1D_Row forward: input=torch.Size([1, 7]), weight=torch.Size([2, 2]). Expected last dim of input 2.''), [])"
  by code_simp

text \<open>
  C9: every invocation of parameter initialisation runs inside the scope of the layer's
  randomizer, which restores the ambient random state on every exit: the state after it
  equals the state before, whether initialisation returns or raises. The invocations are
  \<open>Linear1D_Col.reset_parameters\<close>, which opens the scope itself (line 167) and is called by
  the column constructor (line 125), and the call of \<open>Linear1D_Row.reset_parameters\<close> under
  the scope that the row constructor opens (lines 282 and 283).
\<close>

theorem initialization_restores_ambient_rng:
  "ambient_rng (snd (Linear1D_Col_reset_parameters weight_initializer bias_initializer cself w)) = ambient_rng w
   \<and> ambient_rng (snd (Linear1D_Col_init cargs w)) = ambient_rng w
   \<and> ambient_rng (snd (Linear1D_Row_init from_root rargs w)) = ambient_rng w
   \<and> ambient_rng (snd (row_scoped_reset from_root weight_initializer bias_initializer rself w))
       = ambient_rng w"
  by (simp add: ambient_col_reset ambient_col_init ambient_row_init ambient_row_scoped_reset)

theorem initialization_restores_ambient_rng_witness:
  "ambient_rng ex_world = 7
   \<and> ambient_rng (snd (Linear1D_Row_init None ex_row_fresh ex_world)) = 7
   \<and> fst (Linear1D_Row_init None (ex_row_fresh\<lparr>arg_weight_initializer := ex_failing_init\<rparr>) ex_world)
         = Inl (RuntimeError ''initializer failed'')
   \<and> ambient_rng (snd (Linear1D_Row_init None (ex_row_fresh\<lparr>arg_weight_initializer := ex_failing_init\<rparr>) ex_world)) = 7"
proof -
  have "fst (Linear1D_Row_init None (ex_row_fresh\<lparr>arg_weight_initializer := ex_failing_init\<rparr>) ex_world)
         = Inl (RuntimeError ''initializer failed'')"
    by code_simp
  then show ?thesis
    using initialization_restores_ambient_rng[of ex_weight_init ex_bias_init "ex_col 0" ex_world ex_col_args None ex_row_fresh]
      initialization_restores_ambient_rng[of ex_weight_init ex_bias_init "ex_col 0" ex_world ex_col_args None
         "ex_row_fresh\<lparr>arg_weight_initializer := ex_failing_init\<rparr>"]
    by (simp add: ex_world_def)
qed



end
